theory Spec2Isabelle
  imports Main
begin

section \<open>The navigation data file \<^verbatim>\<open>doc/html/namespaces_dup.js\<close>\<close>

text \<open>
  The file is one JavaScript statement, \<^verbatim>\<open>var namespaces_dup = [ ... ];\<close>, whose
  right-hand side is an array literal built from string literals, \<^verbatim>\<open>null\<close> and nested
  array literals only. The values such a literal can denote are modelled by \<open>jsval\<close>:
  an array is the list of its elements, in order.
\<close>

datatype jsval = JNull | JStr string | JArr "jsval list"

text \<open>The literal of the source, transcribed line by line.\<close>

definition namespaces_dup :: jsval where
  "namespaces_dup =
   JArr [
       JArr [JStr ''AudioProcessor'', JStr ''namespace_audio_processor.html'', JArr [
         JArr [JStr ''audio_adsr_envelope'', JStr ''namespace_audio_processor.html#ae008bec20dd3d0c1ded65275df5b80b8'', JNull],
         JArr [JStr ''audio_generate_complex_wave'', JStr ''namespace_audio_processor.html#a57c5af1354f319249f7916183e74b85a'', JNull],
         JArr [JStr ''audio_generate_sawtooth_wave'', JStr ''namespace_audio_processor.html#ac4306017cb43589f6e7da9992f207100'', JNull],
         JArr [JStr ''audio_generate_sine_wave'', JStr ''namespace_audio_processor.html#a335525d85a6fd00b3a94ebeb50093500'', JNull],
         JArr [JStr ''audio_generate_square_wave'', JStr ''namespace_audio_processor.html#a4d44152447a43e47ac594e0419214f5f'', JNull],
         JArr [JStr ''audio_generate_string_wave'', JStr ''namespace_audio_processor.html#a350edf8b29d7fb215d6e069fb228d4e1'', JNull],
         JArr [JStr ''audio_multiply_gain'', JStr ''namespace_audio_processor.html#a16c83eb3034d2a401d4e45e491c1b7c6'', JNull],
         JArr [JStr ''audio_note_number_to_freq'', JStr ''namespace_audio_processor.html#a78902f68a76e4f56fa41ccd42582ff05'', JNull],
         JArr [JStr ''audio_rise_fall_envelope'', JStr ''namespace_audio_processor.html#ac1ee62b21f986317dba3a16317fd0c82'', JNull],
         JArr [JStr ''audio_stereo_gains'', JStr ''namespace_audio_processor.html#af6ec1931586580f24c7483878e2e7bad'', JNull],
         JArr [JStr ''audio_stereo_mix_in'', JStr ''namespace_audio_processor.html#a97a7cc89215033302eb80d08856948d0'', JNull],
         JArr [JStr ''adsr_attack_samples'', JStr ''namespace_audio_processor.html#a7b0d5468caa4388b60aadeed2b5c9dbb'', JNull],
         JArr [JStr ''adsr_decay_samples'', JStr ''namespace_audio_processor.html#adc182a54eddbe1d15f16aec025fbfbf6'', JNull],
         JArr [JStr ''adsr_release_samples'', JStr ''namespace_audio_processor.html#a1a4186265ecee161a8823b2825018c63'', JNull]
       ]],
       JArr [JStr ''DataStructure'', JStr ''namespace_data_structure.html'', JStr ''namespace_data_structure''],
       JArr [JStr ''main'', JStr ''namespacemain.html'', JArr [
         JArr [JStr ''apply_adsr_envelope'', JStr ''namespacemain.html#a64d9c6e0a696380378c51675821275a6'', JNull],
         JArr [JStr ''apply_rise_fall_envelope'', JStr ''namespacemain.html#afaf3e4e897be8cf79097bfec07a9a276'', JNull],
         JArr [JStr ''apply_stereo'', JStr ''namespacemain.html#aace46784eb538958d1ccc130fb4ff433'', JNull],
         JArr [JStr ''compare_two_wave_files'', JStr ''namespacemain.html#a7bf61d5ff3ea26ace8fe7bf69ba257c2'', JNull],
         JArr [JStr ''create_waveform'', JStr ''namespacemain.html#ab0ec5311a3c5fc9e0eadb63c1cc3a32c'', JNull],
         JArr [JStr ''generate_song'', JStr ''namespacemain.html#af46f5bb2c760f56a5e77da4c17ec1c69'', JNull],
         JArr [JStr ''get_filename'', JStr ''namespacemain.html#ae0652dd6046424e6df071c661d751f0f'', JNull],
         JArr [JStr ''get_wave_parameters'', JStr ''namespacemain.html#ac887e3e66faa66e5e64c6ec50bf9e078'', JNull],
         JArr [JStr ''main'', JStr ''namespacemain.html#aa7a58ac748c5293faa4d77a82b94d161'', JNull],
         JArr [JStr ''print_main_menu'', JStr ''namespacemain.html#a812f03cebb08e2b28db26c9882469c48'', JNull]
       ]],
       JArr [JStr ''Song'', JStr ''namespace_song.html'', JStr ''namespace_song''],
       JArr [JStr ''Wave'', JStr ''namespace_wave.html'', JStr ''namespace_wave'']
   ]"

subsection \<open>Reading the tree\<close>

text \<open>
  The elements of an array value (no elements for a value that is not an array), and
  the three components of an entry, read as JavaScript's \<^verbatim>\<open>e[0]\<close>, \<^verbatim>\<open>e[1]\<close>, \<^verbatim>\<open>e[2]\<close>
  would read them; \<open>None\<close> stands for a component that is absent or of another kind.
\<close>

fun elems :: "jsval \<Rightarrow> jsval list" where
  "elems (JArr xs) = xs"
| "elems _ = []"

fun label :: "jsval \<Rightarrow> string option" where
  "label (JArr (JStr n # _)) = Some n"
| "label _ = None"

fun target :: "jsval \<Rightarrow> string option" where
  "target (JArr (_ # JStr t # _)) = Some t"
| "target _ = None"

fun children :: "jsval \<Rightarrow> jsval list option" where
  "children (JArr (_ # _ # JArr cs # _)) = Some cs"
| "children _ = None"

text \<open>
  Every entry of the tree under a list of entries: each element of the list, followed
  by the entries under its child list when its third component is an array.
\<close>

fun all_entries :: "jsval list \<Rightarrow> jsval list" where
  "all_entries [] = []"
| "all_entries (JArr (n # t # JArr cs # r) # es) =
     JArr (n # t # JArr cs # r) # all_entries cs @ all_entries es"
| "all_entries (e # es) = e # all_entries es"

text \<open>The names of the members listed under the namespace entries labelled \<open>ns\<close>.\<close>

definition member_names :: "string \<Rightarrow> jsval \<Rightarrow> string list" where
  "member_names ns v =
     concat (map (\<lambda>e. case children e of
                          Some cs \<Rightarrow> List.map_filter label cs
                        | None \<Rightarrow> [])
                 (filter (\<lambda>e. label e = Some ns) (elems v)))"

text \<open>
  The depth of an entry: one for an entry without a child list, one more than its
  deepest child otherwise. The depth of the tree is that of its deepest top-level entry.
\<close>

fun depth :: "jsval \<Rightarrow> nat" where
  "depth (JArr (n # t # JArr cs # r)) = Suc (fold max (map depth cs) 0)"
| "depth _ = 1"

definition tree_depth :: "jsval \<Rightarrow> nat" where
  "tree_depth v = fold max (map depth (elems v)) 0"

subsection \<open>Shapes of entries\<close>

text \<open>
  A link target names an HTML page, or an anchor inside one: the part before its first
  hash sign (the whole of it when there is none) ends in \<^verbatim>\<open>.html\<close>.

  The shape of one entry, without looking into its children: a three-element array of
  a string, a link target and either \<^verbatim>\<open>null\<close> or an array. The children are
  entries of the tree themselves (\<open>all_entries\<close>), so a statement about every entry of
  the tree covers them.
\<close>

definition html_link :: "string \<Rightarrow> bool" where
  "html_link t = (take 5 (rev (takeWhile (\<lambda>c. c \<noteq> CHR ''#'') t)) = rev ''.html'')"

fun triple_null_or_list :: "jsval \<Rightarrow> bool" where
  "triple_null_or_list (JArr [JStr n, JStr t, JNull]) = html_link t"
| "triple_null_or_list (JArr [JStr n, JStr t, JArr cs]) = html_link t"
| "triple_null_or_list _ = False"

text \<open>The same shape, with a string admitted as well in the third place.\<close>

fun triple_null_list_or_string :: "jsval \<Rightarrow> bool" where
  "triple_null_list_or_string (JArr [JStr n, JStr t, JNull]) = html_link t"
| "triple_null_list_or_string (JArr [JStr n, JStr t, JArr cs]) = html_link t"
| "triple_null_list_or_string (JArr [JStr n, JStr t, JStr f]) = html_link t"
| "triple_null_list_or_string _ = False"

text \<open>
  An anchor is the letter a followed by 32 lowercase hexadecimal digits. A member entry
  under a namespace whose page is \<open>url\<close> links to \<open>url\<close>, a hash sign and an anchor,
  and has \<^verbatim>\<open>null\<close> in the third place.
\<close>

definition lower_hex :: "char \<Rightarrow> bool" where
  "lower_hex c = (c \<in> set ''0123456789abcdef'')"

fun is_anchor :: "string \<Rightarrow> bool" where
  "is_anchor [] = False"
| "is_anchor (c # h) = (c = CHR ''a'' \<and> length h = 32 \<and> list_all lower_hex h)"

fun member_of_page :: "string \<Rightarrow> jsval \<Rightarrow> bool" where
  "member_of_page url (JArr [JStr m, JStr t, JNull]) =
     (take (Suc (length url)) t = url @ ''#'' \<and> is_anchor (drop (Suc (length url)) t))"
| "member_of_page url _ = False"

text \<open>The part of a link target after its first hash sign, when it has one.\<close>

definition anchor_of :: "string \<Rightarrow> string option" where
  "anchor_of t = (case dropWhile (\<lambda>c. c \<noteq> CHR ''#'') t of [] \<Rightarrow> None | _ # a \<Rightarrow> Some a)"

subsection \<open>Case-insensitive order of names\<close>

text \<open>
  Names are compared letter by letter on their character codes, an upper-case ASCII
  letter counting as its lower-case form; a proper prefix comes first.
\<close>

definition lower_code :: "char \<Rightarrow> nat" where
  "lower_code c = (let n = of_char c in if 65 \<le> n \<and> n \<le> 90 then n + 32 else n)"

fun lex_le :: "nat list \<Rightarrow> nat list \<Rightarrow> bool" where
  "lex_le [] ys = True"
| "lex_le (x # xs) [] = False"
| "lex_le (x # xs) (y # ys) = (x < y \<or> (x = y \<and> lex_le xs ys))"

definition ci_le :: "string \<Rightarrow> string \<Rightarrow> bool" where
  "ci_le a b = lex_le (map lower_code a) (map lower_code b)"

subsection \<open>Evaluating the file\<close>

text \<open>
  The file is a classic script in sloppy mode (it has no directive): one statement,
  \<^verbatim>\<open>var namespaces_dup = [ ... ];\<close>, at top level. What evaluating it does depends
  on the global environment, which is modelled by the parts a top-level \<^verbatim>\<open>var\<close>
  consults:
  \<^item> \<open>lexical\<close>: the names declared by \<^verbatim>\<open>let\<close>, \<^verbatim>\<open>const\<close> or \<^verbatim>\<open>class\<close> at top level
    by earlier scripts;
  \<^item> \<open>props\<close>: the own properties of the global object (earlier \<^verbatim>\<open>var\<close> and
    function declarations live here). A data property holds a value (\<open>None\<close> is
    \<^verbatim>\<open>undefined\<close>) and is writable or not; an accessor property has a setter or
    none. A setter is code of the environment: it is named by a number, and what it
    does is a parameter of the evaluation;
  \<^item> \<open>extensible\<close>: whether properties can be added to the global object;
  \<^item> \<open>external\<close>: everything outside the global scope (the document, storage, the
    network), of any type.
\<close>

datatype js_error = SyntaxError | TypeError | Thrown jsval

datatype jsprop = Data "jsval option" bool | Accessor "nat option"

record 'x js_state =
  lexical :: "string set"
  props :: "string \<rightharpoonup> jsprop"
  extensible :: bool
  external :: 'x

type_synonym 'x setters = "nat \<Rightarrow> jsval \<Rightarrow> 'x js_state \<Rightarrow> js_error option \<times> 'x js_state"

text \<open>
  Expressions: the three literal forms the file is written in, the conditional
  expression, and \<open>EHost\<close> for an expression that looks at the state: it may read all
  of it, yield any value or throw, and change the external state.
\<close>

datatype 'x expr =
    ENull
  | EStr string
  | EArr "'x expr list"
  | ECond "'x expr" "'x expr" "'x expr"
  | EHost "'x js_state \<Rightarrow> (js_error + jsval) \<times> 'x"

text \<open>The initializer of the source, transcribed line by line.\<close>

definition namespaces_dup_init :: "'x expr" where
  "namespaces_dup_init =
   EArr [
       EArr [EStr ''AudioProcessor'', EStr ''namespace_audio_processor.html'', EArr [
         EArr [EStr ''audio_adsr_envelope'', EStr ''namespace_audio_processor.html#ae008bec20dd3d0c1ded65275df5b80b8'', ENull],
         EArr [EStr ''audio_generate_complex_wave'', EStr ''namespace_audio_processor.html#a57c5af1354f319249f7916183e74b85a'', ENull],
         EArr [EStr ''audio_generate_sawtooth_wave'', EStr ''namespace_audio_processor.html#ac4306017cb43589f6e7da9992f207100'', ENull],
         EArr [EStr ''audio_generate_sine_wave'', EStr ''namespace_audio_processor.html#a335525d85a6fd00b3a94ebeb50093500'', ENull],
         EArr [EStr ''audio_generate_square_wave'', EStr ''namespace_audio_processor.html#a4d44152447a43e47ac594e0419214f5f'', ENull],
         EArr [EStr ''audio_generate_string_wave'', EStr ''namespace_audio_processor.html#a350edf8b29d7fb215d6e069fb228d4e1'', ENull],
         EArr [EStr ''audio_multiply_gain'', EStr ''namespace_audio_processor.html#a16c83eb3034d2a401d4e45e491c1b7c6'', ENull],
         EArr [EStr ''audio_note_number_to_freq'', EStr ''namespace_audio_processor.html#a78902f68a76e4f56fa41ccd42582ff05'', ENull],
         EArr [EStr ''audio_rise_fall_envelope'', EStr ''namespace_audio_processor.html#ac1ee62b21f986317dba3a16317fd0c82'', ENull],
         EArr [EStr ''audio_stereo_gains'', EStr ''namespace_audio_processor.html#af6ec1931586580f24c7483878e2e7bad'', ENull],
         EArr [EStr ''audio_stereo_mix_in'', EStr ''namespace_audio_processor.html#a97a7cc89215033302eb80d08856948d0'', ENull],
         EArr [EStr ''adsr_attack_samples'', EStr ''namespace_audio_processor.html#a7b0d5468caa4388b60aadeed2b5c9dbb'', ENull],
         EArr [EStr ''adsr_decay_samples'', EStr ''namespace_audio_processor.html#adc182a54eddbe1d15f16aec025fbfbf6'', ENull],
         EArr [EStr ''adsr_release_samples'', EStr ''namespace_audio_processor.html#a1a4186265ecee161a8823b2825018c63'', ENull]
       ]],
       EArr [EStr ''DataStructure'', EStr ''namespace_data_structure.html'', EStr ''namespace_data_structure''],
       EArr [EStr ''main'', EStr ''namespacemain.html'', EArr [
         EArr [EStr ''apply_adsr_envelope'', EStr ''namespacemain.html#a64d9c6e0a696380378c51675821275a6'', ENull],
         EArr [EStr ''apply_rise_fall_envelope'', EStr ''namespacemain.html#afaf3e4e897be8cf79097bfec07a9a276'', ENull],
         EArr [EStr ''apply_stereo'', EStr ''namespacemain.html#aace46784eb538958d1ccc130fb4ff433'', ENull],
         EArr [EStr ''compare_two_wave_files'', EStr ''namespacemain.html#a7bf61d5ff3ea26ace8fe7bf69ba257c2'', ENull],
         EArr [EStr ''create_waveform'', EStr ''namespacemain.html#ab0ec5311a3c5fc9e0eadb63c1cc3a32c'', ENull],
         EArr [EStr ''generate_song'', EStr ''namespacemain.html#af46f5bb2c760f56a5e77da4c17ec1c69'', ENull],
         EArr [EStr ''get_filename'', EStr ''namespacemain.html#ae0652dd6046424e6df071c661d751f0f'', ENull],
         EArr [EStr ''get_wave_parameters'', EStr ''namespacemain.html#ac887e3e66faa66e5e64c6ec50bf9e078'', ENull],
         EArr [EStr ''main'', EStr ''namespacemain.html#aa7a58ac748c5293faa4d77a82b94d161'', ENull],
         EArr [EStr ''print_main_menu'', EStr ''namespacemain.html#a812f03cebb08e2b28db26c9882469c48'', ENull]
       ]],
       EArr [EStr ''Song'', EStr ''namespace_song.html'', EStr ''namespace_song''],
       EArr [EStr ''Wave'', EStr ''namespace_wave.html'', EStr ''namespace_wave'']
   ]"

text \<open>An expression is a literal when it has no conditional and no \<open>EHost\<close> in it.\<close>

fun literal :: "'x expr \<Rightarrow> bool" where
  "literal ENull = True"
| "literal (EStr t) = True"
| "literal (EArr es) = list_all literal es"
| "literal (ECond c a b) = False"
| "literal (EHost f) = False"

text \<open>
  The truth value of a value in a condition: \<^verbatim>\<open>null\<close> and the empty string count as
  false, every other string and every array as true.
\<close>

fun truthy :: "jsval \<Rightarrow> bool" where
  "truthy JNull = False"
| "truthy (JStr t) = (t \<noteq> [])"
| "truthy (JArr vs) = True"

text \<open>
  Evaluation yields a value or a thrown error, and the state it leaves. The elements of
  an array literal are evaluated from left to right, and the first throw ends it.
\<close>

fun eval :: "'x expr \<Rightarrow> 'x js_state \<Rightarrow> (js_error + jsval) \<times> 'x js_state"
  and eval_list :: "'x expr list \<Rightarrow> 'x js_state \<Rightarrow> (js_error + jsval list) \<times> 'x js_state"
where
  "eval ENull s = (Inr JNull, s)"
| "eval (EStr t) s = (Inr (JStr t), s)"
| "eval (EArr es) s =
     (case eval_list es s of
        (Inl err, s') \<Rightarrow> (Inl err, s')
      | (Inr vs, s') \<Rightarrow> (Inr (JArr vs), s'))"
| "eval (ECond c a b) s =
     (case eval c s of
        (Inl err, s') \<Rightarrow> (Inl err, s')
      | (Inr v, s') \<Rightarrow> (if truthy v then eval a s' else eval b s'))"
| "eval (EHost f) s = (case f s of (r, x) \<Rightarrow> (r, s\<lparr>external := x\<rparr>))"
| "eval_list [] s = (Inr [], s)"
| "eval_list (e # es) s =
     (case eval e s of
        (Inl err, s') \<Rightarrow> (Inl err, s')
      | (Inr v, s') \<Rightarrow>
          (case eval_list es s' of
             (Inl err, s'') \<Rightarrow> (Inl err, s'')
           | (Inr vs, s'') \<Rightarrow> (Inr (v # vs), s'')))"

text \<open>
  Before any statement of a script runs, its \<^verbatim>\<open>var\<close> names are declared. A name
  that is declared lexically is a \<^verbatim>\<open>SyntaxError\<close>; a name that is not yet a property of
  the global object needs the object to be extensible (\<^verbatim>\<open>TypeError\<close> otherwise) and
  becomes a writable data property holding \<^verbatim>\<open>undefined\<close>; a name that is a property
  already is left as it is.
\<close>

definition declare_var :: "string \<Rightarrow> 'x js_state \<Rightarrow> js_error + 'x js_state" where
  "declare_var x s =
     (if x \<in> lexical s then Inl SyntaxError
      else case props s x of
             Some p \<Rightarrow> Inr s
           | None \<Rightarrow>
               if extensible s then Inr (s\<lparr>props := (props s)(x \<mapsto> Data None True)\<rparr>)
               else Inl TypeError)"

text \<open>
  Storing the value of the initializer, in sloppy mode: a writable data property takes
  the value; a read-only data property and an accessor without a setter keep what they
  have, without a throw; a setter is called with the value. An absent property (which
  a declared name never is) is created if the global object is extensible.
\<close>

definition put_var :: "'x setters \<Rightarrow> string \<Rightarrow> jsval \<Rightarrow> 'x js_state \<Rightarrow> js_error option \<times> 'x js_state" where
  "put_var setter x v s =
     (case props s x of
        Some (Data old w) \<Rightarrow>
          (None, if w then s\<lparr>props := (props s)(x \<mapsto> Data (Some v) True)\<rparr> else s)
      | Some (Accessor None) \<Rightarrow> (None, s)
      | Some (Accessor (Some k)) \<Rightarrow> setter k v s
      | None \<Rightarrow>
          (None, if extensible s then s\<lparr>props := (props s)(x \<mapsto> Data (Some v) True)\<rparr>
                 else s))"

text \<open>
  A script that is the one statement \<^verbatim>\<open>var x = e;\<close>: the declaration, then the
  initializer, then the store. The result is the error thrown, if any, and the state
  left behind.
\<close>

definition run_var :: "'x setters \<Rightarrow> string \<Rightarrow> 'x expr \<Rightarrow> 'x js_state \<Rightarrow> js_error option \<times> 'x js_state" where
  "run_var setter x e s =
     (case declare_var x s of
        Inl err \<Rightarrow> (Some err, s)
      | Inr s1 \<Rightarrow>
          (case eval e s1 of
             (Inl err, s2) \<Rightarrow> (Some err, s2)
           | (Inr v, s2) \<Rightarrow> put_var setter x v s2))"

text \<open>The file.\<close>

definition script :: "'x setters \<Rightarrow> 'x js_state \<Rightarrow> js_error option \<times> 'x js_state" where
  "script setter s = run_var setter ''namespaces_dup'' namespaces_dup_init s"

text \<open>
  The states in which the name can be bound: it is not declared lexically, and it is a
  writable data property of the global object, or absent from an extensible one.
\<close>

definition bindable :: "string \<Rightarrow> 'x js_state \<Rightarrow> bool" where
  "bindable x s =
     (x \<notin> lexical s \<and>
      (case props s x of
         None \<Rightarrow> extensible s
       | Some (Data old w) \<Rightarrow> w
       | Some (Accessor f) \<Rightarrow> False))"



section \<open>Properties of the data\<close>

text \<open>
  C1, as stated: every entry of the tree, top-level or nested, is a triple of a display
  name, a link target and a third component that is \<^verbatim>\<open>null\<close> or a list of child
  entries. The entry for \<open>DataStructure\<close> is an entry of the tree and has a string in
  the third place, so the statement fails there.
\<close>

theorem DataStructure_entry_not_null_or_list:
  "JArr [JStr ''DataStructure'', JStr ''namespace_data_structure.html'',
         JStr ''namespace_data_structure''] \<in> set (all_entries (elems namespaces_dup))
   \<and> \<not> triple_null_or_list
        (JArr [JStr ''DataStructure'', JStr ''namespace_data_structure.html'',
               JStr ''namespace_data_structure''])"
  unfolding namespaces_dup_def by simp

text \<open>
  C1, amended: every entry of the tree, top-level or nested, is a triple of a display
  name, a link target and a third component that is \<^verbatim>\<open>null\<close>, a list of child
  entries of the same shape, or a string; the entries with a string there are exactly
  the top-level entries \<open>DataStructure\<close>, \<open>Song\<close> and \<open>Wave\<close>.
\<close>

theorem entries_null_list_or_string:
  "(\<forall>e \<in> set (all_entries (elems namespaces_dup)). triple_null_list_or_string e)
   \<and> filter (\<lambda>e. \<not> triple_null_or_list e) (all_entries (elems namespaces_dup)) =
       [JArr [JStr ''DataStructure'', JStr ''namespace_data_structure.html'',
              JStr ''namespace_data_structure''],
        JArr [JStr ''Song'', JStr ''namespace_song.html'', JStr ''namespace_song''],
        JArr [JStr ''Wave'', JStr ''namespace_wave.html'', JStr ''namespace_wave'']]"
  unfolding namespaces_dup_def by (simp add: html_link_def)

theorem entries_null_list_or_string_Song:
  "triple_null_list_or_string
     (JArr [JStr ''Song'', JStr ''namespace_song.html'', JStr ''namespace_song''])"
proof -
  have "JArr [JStr ''Song'', JStr ''namespace_song.html'', JStr ''namespace_song'']
          \<in> set (all_entries (elems namespaces_dup))"
    unfolding namespaces_dup_def by simp
  with entries_null_list_or_string show ?thesis by blast
qed

text \<open>
  C2: the top-level entries of \<open>namespaces_dup\<close> are labelled \<open>AudioProcessor\<close>,
  \<open>DataStructure\<close>, \<open>Song\<close>, \<open>Wave\<close> and \<open>main\<close>: these five labels, and five
  entries in all.
\<close>

theorem top_level_labels:
  "set (map label (elems namespaces_dup)) =
     {Some ''AudioProcessor'', Some ''DataStructure'', Some ''Song'', Some ''Wave'',
      Some ''main''}
   \<and> length (elems namespaces_dup) = 5"
  unfolding namespaces_dup_def by auto

text \<open>
  C3: the link targets of all entries of the tree are pairwise distinct (and every
  entry has one); in particular the anchors, the parts after the hash sign, occur at
  most once each.
\<close>

theorem link_targets_distinct:
  "distinct (map target (all_entries (elems namespaces_dup)))
   \<and> None \<notin> set (map target (all_entries (elems namespaces_dup)))
   \<and> distinct (List.map_filter anchor_of
        (List.map_filter target (all_entries (elems namespaces_dup))))"
  unfolding namespaces_dup_def by (simp add: List.map_filter_simps anchor_of_def)

text \<open>
  C4: the child list of the \<open>AudioProcessor\<close> entry has members named
  \<open>audio_generate_sine_wave\<close> and \<open>audio_adsr_envelope\<close>, and the child list of the
  \<open>main\<close> entry has members named \<open>generate_song\<close> and \<open>compare_two_wave_files\<close>.
\<close>

theorem named_members_present:
  "''audio_generate_sine_wave'' \<in> set (member_names ''AudioProcessor'' namespaces_dup)
   \<and> ''audio_adsr_envelope'' \<in> set (member_names ''AudioProcessor'' namespaces_dup)
   \<and> ''generate_song'' \<in> set (member_names ''main'' namespaces_dup)
   \<and> ''compare_two_wave_files'' \<in> set (member_names ''main'' namespaces_dup)"
  unfolding namespaces_dup_def member_names_def by (simp add: List.map_filter_simps)

section \<open>Properties of the evaluation\<close>

text \<open>
  A literal evaluates to the same value in every state and leaves the state as it is:
  the syntactic condition \<open>literal\<close> is what makes an expression a constant.
\<close>

lemma eval_list_literal:
  "(\<And>e. e \<in> set es \<Longrightarrow> \<exists>v. \<forall>s. eval e s = (Inr v, s))
   \<Longrightarrow> \<exists>vs. \<forall>s. eval_list es s = (Inr vs, s)"
proof (induction es)
  case Nil
  show ?case by simp
next
  case (Cons e es)
  from Cons.prems obtain v where v: "\<forall>s. eval e s = (Inr v, s)" by auto
  from Cons obtain vs where vs: "\<forall>s. eval_list es s = (Inr vs, s)" by auto
  from v vs have "\<forall>s. eval_list (e # es) s = (Inr (v # vs), s)" by simp
  then show ?case by blast
qed

lemma literal_eval: "literal e \<Longrightarrow> \<exists>v. \<forall>s. eval e s = (Inr v, s)"
proof (induction e)
  case (EArr es)
  then have "\<And>e. e \<in> set es \<Longrightarrow> \<exists>v. \<forall>s. eval e s = (Inr v, s)"
    by (simp add: list_all_iff)
  then obtain vs where "\<forall>s. eval_list es s = (Inr vs, s)"
    using eval_list_literal by blast
  then have "\<forall>s. eval (EArr es) s = (Inr (JArr vs), s)" by simp
  then show ?case by blast
qed simp_all

text \<open>The initializer of the file is a literal, and its value is \<open>namespaces_dup\<close>.\<close>

lemma init_literal: "literal (namespaces_dup_init :: 'x expr)"
  unfolding namespaces_dup_init_def by simp

lemma eval_init: "eval namespaces_dup_init s = (Inr namespaces_dup, s)"
  unfolding namespaces_dup_init_def namespaces_dup_def by simp

text \<open>What evaluating the file does, case by case.\<close>

lemma script_unfold:
  "script setter s =
     (if ''namespaces_dup'' \<in> lexical s then (Some SyntaxError, s)
      else case props s ''namespaces_dup'' of
             None \<Rightarrow>
               if extensible s
               then (None, s\<lparr>props := (props s)(''namespaces_dup'' \<mapsto>
                             Data (Some namespaces_dup) True)\<rparr>)
               else (Some TypeError, s)
           | Some (Data old w) \<Rightarrow>
               (None, if w then s\<lparr>props := (props s)(''namespaces_dup'' \<mapsto>
                                     Data (Some namespaces_dup) True)\<rparr>
                      else s)
           | Some (Accessor None) \<Rightarrow> (None, s)
           | Some (Accessor (Some k)) \<Rightarrow> setter k namespaces_dup s)"
  by (simp add: script_def run_var_def declare_var_def put_var_def eval_init
      split: option.splits jsprop.splits)

text \<open>
  C5, as stated: the result of evaluating the file is the same fixed value in any two
  evaluations, whatever the environment. Evaluated where nothing is defined, the file
  binds \<open>namespaces_dup\<close> to the literal; evaluated where \<open>namespaces_dup\<close> is a
  read-only property holding \<^verbatim>\<open>"old"\<close>, it leaves that value in place. The two
  evaluations end with different bindings.
\<close>

theorem script_binding_differs_when_read_only:
  "props (snd (script (\<lambda>k v s. (None, s))
       \<lparr>lexical = {}, props = Map.empty, extensible = True, external = ()\<rparr>))
     ''namespaces_dup'' = Some (Data (Some namespaces_dup) True)
   \<and> props (snd (script (\<lambda>k v s. (None, s))
       \<lparr>lexical = {},
        props = [''namespaces_dup'' \<mapsto> Data (Some (JStr ''old'')) False],
        extensible = True, external = ()\<rparr>))
     ''namespaces_dup'' = Some (Data (Some (JStr ''old'')) False)"
  by (simp add: script_unfold)

text \<open>
  C5, amended: the file defines a single constant by one \<^verbatim>\<open>var\<close> statement whose
  initializer is a literal, with no conditional and no look at the state in it; the
  initializer evaluates to the same fixed value in every state and leaves the state
  unchanged; and any two evaluations in states where \<open>namespaces_dup\<close> can be bound
  (it is not declared lexically, and is a writable data property of the global object
  or absent from an extensible one) complete normally and bind \<open>namespaces_dup\<close> to
  that value.
\<close>

theorem script_same_binding:
  fixes s s1 s2 :: "'x js_state"
  assumes "bindable ''namespaces_dup'' s1" and "bindable ''namespaces_dup'' s2"
  shows "literal (namespaces_dup_init :: 'x expr)
     \<and> eval namespaces_dup_init s = (Inr namespaces_dup, s)
     \<and> (\<exists>t1 t2. script setter1 s1 = (None, t1) \<and> script setter2 s2 = (None, t2)
          \<and> props t1 ''namespaces_dup'' = props t2 ''namespaces_dup''
          \<and> props t1 ''namespaces_dup'' = Some (Data (Some namespaces_dup) True))"
proof -
  have b: "\<exists>t. script setter r = (None, t)
        \<and> props t ''namespaces_dup'' = Some (Data (Some namespaces_dup) True)"
    if "bindable ''namespaces_dup'' r" for setter and r :: "'x js_state"
    using that
    by (auto simp: script_unfold bindable_def split: option.splits jsprop.splits)
  from b [OF assms(1), of setter1] b [OF assms(2), of setter2]
  show ?thesis using init_literal eval_init by auto
qed

theorem script_same_binding_fresh_and_rebound:
  "\<exists>t1 t2.
     script (\<lambda>k v s. (None, s))
       \<lparr>lexical = {}, props = Map.empty, extensible = True, external = ()\<rparr> = (None, t1)
   \<and> script (\<lambda>k v s. (None, s))
       \<lparr>lexical = {''navTreeSubIndices''},
        props = [''namespaces_dup'' \<mapsto> Data (Some (JStr ''old'')) True],
        extensible = False, external = ()\<rparr> = (None, t2)
   \<and> props t1 ''namespaces_dup'' = props t2 ''namespaces_dup''"
proof -
  have 1: "bindable ''namespaces_dup''
      \<lparr>lexical = {}, props = Map.empty, extensible = True, external = ()\<rparr>"
    by (simp add: bindable_def)
  have 2: "bindable ''namespaces_dup''
      \<lparr>lexical = {''navTreeSubIndices''},
       props = [''namespaces_dup'' \<mapsto> Data (Some (JStr ''old'')) True],
       extensible = False, external = ()\<rparr>"
    by (simp add: bindable_def)
  from script_same_binding [OF 1 2] show ?thesis by blast
qed

text \<open>
  C6, as stated: evaluating the file never fails, in any evaluation. Where an earlier
  script has declared \<open>namespaces_dup\<close> with \<^verbatim>\<open>let\<close>, \<^verbatim>\<open>const\<close> or \<^verbatim>\<open>class\<close>, the
  evaluation throws a \<^verbatim>\<open>SyntaxError\<close>.
\<close>

theorem script_throws_after_let:
  "script (\<lambda>k v s. (None, s))
     \<lparr>lexical = {''namespaces_dup''}, props = Map.empty, extensible = True, external = ()\<rparr>
   = (Some SyntaxError,
      \<lparr>lexical = {''namespaces_dup''}, props = Map.empty, extensible = True, external = ()\<rparr>)"
  by (simp add: script_unfold)

text \<open>
  C6, amended: evaluating the literal of the file never fails, in any state. Evaluating
  the file fails in these environments and no others: with a \<^verbatim>\<open>SyntaxError\<close> where
  \<open>namespaces_dup\<close> is declared lexically; with a \<^verbatim>\<open>TypeError\<close> where the global object
  has no property \<open>namespaces_dup\<close> and is not extensible; and, where \<open>namespaces_dup\<close>
  is an accessor property with a setter, with whatever that setter throws.
\<close>

theorem script_throws_exactly:
  "fst (script setter s) =
     (if ''namespaces_dup'' \<in> lexical s then Some SyntaxError
      else case props s ''namespaces_dup'' of
             None \<Rightarrow> if extensible s then None else Some TypeError
           | Some (Data old w) \<Rightarrow> None
           | Some (Accessor None) \<Rightarrow> None
           | Some (Accessor (Some k)) \<Rightarrow> fst (setter k namespaces_dup s))
   \<and> eval namespaces_dup_init s = (Inr namespaces_dup, s)"
  by (simp add: script_unfold eval_init split: option.splits jsprop.splits)

theorem script_throws_exactly_fresh_and_sealed:
  "fst (script (\<lambda>k v s. (Some TypeError, s))
     \<lparr>lexical = {}, props = Map.empty, extensible = True, external = ()\<rparr>) = None
   \<and> fst (script (\<lambda>k v s. (None, s))
     \<lparr>lexical = {}, props = Map.empty, extensible = False, external = ()\<rparr>)
       = Some TypeError"
  using script_throws_exactly
    [of "\<lambda>k v s. (Some TypeError, s)"
        "\<lparr>lexical = {}, props = Map.empty, extensible = True, external = ()\<rparr>"]
    script_throws_exactly
    [of "\<lambda>k v s. (None, s)"
        "\<lparr>lexical = {}, props = Map.empty, extensible = False, external = ()\<rparr>"]
  by simp




section \<open>Order and members\<close>

text \<open>
  C8: the top-level entries come in the order \<open>AudioProcessor\<close>, \<open>DataStructure\<close>,
  \<open>main\<close>, \<open>Song\<close>, \<open>Wave\<close>, which is alphabetical when the case of the letters is
  ignored.
\<close>

theorem top_level_case_insensitive_order:
  "map label (elems namespaces_dup) =
     [Some ''AudioProcessor'', Some ''DataStructure'', Some ''main'', Some ''Song'',
      Some ''Wave'']
   \<and> sorted_wrt ci_le (List.map_filter label (elems namespaces_dup))"
  unfolding namespaces_dup_def
  by (simp add: List.map_filter_simps ci_le_def lower_code_def)

text \<open>
  C9: the tree has depth exactly two, and every member entry in the child list of a
  namespace entry has \<^verbatim>\<open>null\<close> in the third place and links to the page of its
  namespace, a hash sign, and an anchor made of the letter a and 32 lowercase
  hexadecimal digits.
\<close>

theorem members_null_and_anchored:
  "tree_depth namespaces_dup = 2
   \<and> (\<forall>e \<in> set (elems namespaces_dup). \<forall>cs. children e = Some cs \<longrightarrow>
        (\<exists>url. target e = Some url \<and> (\<forall>c \<in> set cs. member_of_page url c)))"
  unfolding namespaces_dup_def tree_depth_def by (simp add: lower_hex_def)

theorem members_null_and_anchored_generate_song:
  "elems (elems (elems namespaces_dup ! 2) ! 2) ! 5 =
     JArr [JStr ''generate_song'',
           JStr ''namespacemain.html#af46f5bb2c760f56a5e77da4c17ec1c69'', JNull]
   \<and> member_of_page ''namespacemain.html''
       (JArr [JStr ''generate_song'',
              JStr ''namespacemain.html#af46f5bb2c760f56a5e77da4c17ec1c69'', JNull])"
proof -
  let ?e = "elems namespaces_dup ! 2"
  let ?cs = "elems (elems ?e ! 2)"
  let ?c = "JArr [JStr ''generate_song'',
                  JStr ''namespacemain.html#af46f5bb2c760f56a5e77da4c17ec1c69'', JNull]"
  have e: "?e \<in> set (elems namespaces_dup)"
    unfolding namespaces_dup_def by simp
  have cs: "children ?e = Some ?cs"
    unfolding namespaces_dup_def by simp
  have url: "target ?e = Some ''namespacemain.html''"
    unfolding namespaces_dup_def by simp
  have c: "?cs ! 5 = ?c"
    unfolding namespaces_dup_def by simp
  have m: "?c \<in> set ?cs"
    unfolding namespaces_dup_def by simp
  from members_null_and_anchored e cs
  obtain u where u: "target ?e = Some u" and all: "\<forall>c \<in> set ?cs. member_of_page u c"
    by blast
  from u url have "u = ''namespacemain.html''" by simp
  with all m have "member_of_page ''namespacemain.html'' ?c" by blast
  with c show ?thesis by simp
qed

text \<open>
  C10: within the child list of each namespace entry, the display names of the members
  are pairwise distinct.
\<close>

theorem member_names_distinct:
  "\<forall>e \<in> set (elems namespaces_dup). \<forall>cs. children e = Some cs \<longrightarrow>
     distinct (map label cs) \<and> None \<notin> set (map label cs)"
  unfolding namespaces_dup_def by simp

theorem member_names_distinct_AudioProcessor:
  "length (elems (elems (elems namespaces_dup ! 0) ! 2)) = 14
   \<and> distinct (map label (elems (elems (elems namespaces_dup ! 0) ! 2)))"
proof -
  let ?e = "elems namespaces_dup ! 0"
  let ?cs = "elems (elems ?e ! 2)"
  have e: "?e \<in> set (elems namespaces_dup)"
    unfolding namespaces_dup_def by simp
  have cs: "children ?e = Some ?cs"
    unfolding namespaces_dup_def by simp
  have n: "length ?cs = 14"
    unfolding namespaces_dup_def by simp
  from member_names_distinct e cs have "distinct (map label ?cs)" by blast
  with n show ?thesis by simp
qed

end

